theory Spec2Isabelle
  imports Complex_Main "HOL-Library.Sublist"
begin

section \<open>The transcription service of \<^verbatim>\<open>main.py\<close>\<close>

text \<open>
  The service has two operations: \<^verbatim>\<open>load_model\<close>, which constructs an inference
  engine and records what is loaded in the module's globals, and the request handler
  \<^verbatim>\<open>transcribe_audio\<close>. The inference engine, the temporary-file calls and the clock
  are outside the repository; they are the fields of an environment record, and each
  call that can raise returns a sum whose left side is the exception.
\<close>

subsection \<open>Exceptions and the engine's values\<close>

text \<open>
  A raised exception, with \<^verbatim>\<open>str(e)\<close> as its payload: \<open>Exception\<close> is an instance
  of \<^verbatim>\<open>Exception\<close>, which a clause \<^verbatim>\<open>except Exception as e\<close> catches;
  \<open>BaseException\<close> is an exception that is not an instance of \<^verbatim>\<open>Exception\<close>
  (\<^verbatim>\<open>KeyboardInterrupt\<close>, \<^verbatim>\<open>SystemExit\<close>), which such a clause lets through.
\<close>

datatype exn = Exception (str: string) | BaseException (str: string)

fun caught :: "exn \<Rightarrow> bool" where
  "caught (Exception _) = True"
| "caught (BaseException _) = False"


text \<open>The object returned by the \<^verbatim>\<open>WhisperModel\<close> constructor.\<close>

datatype handle = Handle nat

text \<open>
  The texts the engine produces and the handler trims are Python strings, sequences of
  Unicode code points; they are lists of code points here. The other strings of the
  program (device and size names, languages, paths, messages) are only compared,
  concatenated and passed on, and are byte strings.
\<close>

type_synonym ustring = "nat list"

text \<open>A word of a segment, as the engine yields it.\<close>

record word =
  w_word :: ustring
  w_start :: real
  w_end :: real

text \<open>
  The attribute \<^verbatim>\<open>words\<close> of a yielded segment: missing (\<^verbatim>\<open>hasattr\<close> is false),
  \<^verbatim>\<open>None\<close>, or a list.
\<close>

datatype words_attr = NoAttr | AttrNone | AttrList "word list"

record segment =
  s_start :: real
  s_end :: real
  s_text :: ustring
  s_words :: words_attr

text \<open>
  The lazy sequence returned by \<^verbatim>\<open>model.transcribe\<close>: the segments it yields, and the
  exception that ends the iteration when it does not end normally.
\<close>

datatype generator = Generator (yields: "segment list") (raises: "exn option")

record info =
  language :: string
  language_probability :: real

subsection \<open>The globals\<close>

text \<open>The dictionary \<^verbatim>\<open>model_info\<close>, with its three keys.\<close>

record model_info =
  size_id :: string
  device :: string
  loaded :: bool

text \<open>
  The globals \<^verbatim>\<open>model\<close> and \<^verbatim>\<open>model_info\<close>. \<^verbatim>\<open>model\<close> is unbound until a
  construction has succeeded; \<^verbatim>\<open>model_info\<close> is bound by the load that the lifespan
  handler runs before the first request.
\<close>

record state =
  model :: "handle option"
  model_info :: model_info

text \<open>The dictionary returned by \<^verbatim>\<open>load_model\<close>; an absent key is \<open>None\<close>.\<close>

record load_result =
  success :: bool
  message :: "string option"
  error :: "string option"

subsection \<open>Observable calls\<close>

text \<open>
  The calls a run makes to the outside, in order, each recorded with its arguments when
  it is made.
\<close>

datatype event =
    Construct string string string
  | CreateTemp string
  | CopyFileObj string string
  | CloseTemp string
  | Transcribe handle string "string option" int bool bool
  | Materialize generator
  | PathExists string
  | Unlink string

fun is_construct :: "event \<Rightarrow> bool" where
  "is_construct (Construct _ _ _) = True"
| "is_construct _ = False"

fun is_create :: "event \<Rightarrow> bool" where
  "is_create (CreateTemp _) = True"
| "is_create _ = False"

fun is_unlink :: "event \<Rightarrow> bool" where
  "is_unlink (Unlink _) = True"
| "is_unlink _ = False"

subsection \<open>The environment\<close>

text \<open>
  What the program calls and does not define:
  \<^item> \<open>WhisperModel\<close>: the engine's constructor, given the size, the device and the
    compute type;
  \<^item> \<open>splitext_ext\<close>: \<^verbatim>\<open>os.path.splitext(name)[1]\<close>;
  \<^item> \<open>NamedTemporaryFile\<close>: the creation of a temporary file that is kept on close,
    given the suffix; it returns the name of the file;
  \<^item> \<open>copyfileobj\<close>: \<^verbatim>\<open>shutil.copyfileobj\<close>, given the content of the upload and the
    name of the temporary file;
  \<^item> \<open>temp_file_close\<close>: \<^verbatim>\<open>temp_file.close()\<close>;
  \<^item> \<open>model_transcribe\<close>: the method \<^verbatim>\<open>transcribe\<close> of an engine, given the path,
    the language, the beam size and the two flags;
  \<^item> \<open>transcribe_time\<close>: the difference of the two readings of the clock;
  \<^item> \<open>round2\<close>: \<^verbatim>\<open>round(x, 2)\<close>;
  \<^item> \<open>path_exists\<close> and \<open>unlink\<close>: \<^verbatim>\<open>os.path.exists\<close> and \<^verbatim>\<open>os.unlink\<close> at the
    time the \<^verbatim>\<open>finally\<close> clause runs.
  Printing is left out.
\<close>

record env =
  WhisperModel :: "string \<Rightarrow> string \<Rightarrow> string \<Rightarrow> exn + handle"
  splitext_ext :: "string \<Rightarrow> string"
  NamedTemporaryFile :: "string \<Rightarrow> exn + string"
  copyfileobj :: "string \<Rightarrow> string \<Rightarrow> exn option"
  temp_file_close :: "string \<Rightarrow> exn option"
  model_transcribe ::
    "handle \<Rightarrow> string \<Rightarrow> string option \<Rightarrow> int \<Rightarrow> bool \<Rightarrow> bool \<Rightarrow> exn + generator \<times> info"
  transcribe_time :: real
  round2 :: "real \<Rightarrow> real"
  path_exists :: "string \<Rightarrow> bool"
  unlink :: "string \<Rightarrow> exn option"

subsection \<open>\<^verbatim>\<open>load_model\<close>\<close>

text \<open>
  The body of the outer \<^verbatim>\<open>try\<close> (lines 47 to 56): one construction, for the device
  asked for; any device other than \<^verbatim>\<open>"cuda"\<close> is loaded as \<^verbatim>\<open>"cpu"\<close>.
\<close>

definition load_model_try ::
  "env \<Rightarrow> string \<Rightarrow> string \<Rightarrow> state \<Rightarrow> (exn + load_result \<times> state) \<times> event list" where
  "load_model_try en model_size dev st =
     (if dev = ''cuda'' then
        (case WhisperModel en model_size ''cuda'' ''float16'' of
           Inl e \<Rightarrow> (Inl e, [Construct model_size ''cuda'' ''float16''])
         | Inr m \<Rightarrow>
             (Inr (\<lparr>success = True,
                    message = Some (''Successfully loaded GPU model: '' @ model_size),
                    error = None\<rparr>,
                   \<lparr>model = Some m,
                    model_info = \<lparr>size_id = model_size, device = ''cuda'', loaded = True\<rparr>\<rparr>),
              [Construct model_size ''cuda'' ''float16'']))
      else
        (case WhisperModel en model_size ''cpu'' ''int8'' of
           Inl e \<Rightarrow> (Inl e, [Construct model_size ''cpu'' ''int8''])
         | Inr m \<Rightarrow>
             (Inr (\<lparr>success = True,
                    message = Some (''Successfully loaded CPU model: '' @ model_size),
                    error = None\<rparr>,
                   \<lparr>model = Some m,
                    model_info = \<lparr>size_id = model_size, device = ''cpu'', loaded = True\<rparr>\<rparr>),
              [Construct model_size ''cpu'' ''int8''])))"

text \<open>
  The whole function (lines 42 to 70). The result is \<open>Inr\<close> of the dictionary when the
  call returns and \<open>Inl\<close> of the exception when one leaves the function. The handler of
  the outer \<^verbatim>\<open>try\<close> (line 57) takes an instance of \<^verbatim>\<open>Exception\<close> and retries on
  the CPU with the size \<^verbatim>\<open>"small"\<close> when the device was \<^verbatim>\<open>"cuda"\<close>; the handler of
  the inner \<^verbatim>\<open>try\<close> (line 65) takes an instance of \<^verbatim>\<open>Exception\<close> raised by the
  retry. Any other exception leaves the function with the globals as they were. A
  failed load leaves \<^verbatim>\<open>model\<close> as it was and resets \<^verbatim>\<open>model_info\<close>.
\<close>

definition load_model ::
  "env \<Rightarrow> string \<Rightarrow> string \<Rightarrow> state \<Rightarrow> (exn + load_result) \<times> state \<times> event list" where
  "load_model en model_size dev st =
     (case load_model_try en model_size dev st of
        (Inr (res, st'), evs) \<Rightarrow> (Inr res, st', evs)
      | (Inl e, evs) \<Rightarrow>
          (if \<not> caught e then (Inl e, st, evs)
           else if dev = ''cuda'' then
             (case WhisperModel en ''small'' ''cpu'' ''int8'' of
                Inr m \<Rightarrow>
                  (Inr \<lparr>success = True,
                        message = Some ''GPU load failed, fallback to CPU model (small)'',
                        error = None\<rparr>,
                   \<lparr>model = Some m,
                    model_info = \<lparr>size_id = ''small'', device = ''cpu'', loaded = True\<rparr>\<rparr>,
                   evs @ [Construct ''small'' ''cpu'' ''int8''])
              | Inl e2 \<Rightarrow>
                  (if \<not> caught e2 then (Inl e2, st, evs @ [Construct ''small'' ''cpu'' ''int8''])
                   else
                     (Inr \<lparr>success = False,
                           message = None,
                           error = Some (''Model load failed: '' @ str e2)\<rparr>,
                      st\<lparr>model_info := \<lparr>size_id = '''', device = '''', loaded = False\<rparr>\<rparr>,
                      evs @ [Construct ''small'' ''cpu'' ''int8''])))
           else
             (Inr \<lparr>success = False,
                   message = None,
                   error = Some (''CPU model load failed: '' @ str e)\<rparr>,
              st\<lparr>model_info := \<lparr>size_id = '''', device = '''', loaded = False\<rparr>\<rparr>,
              evs)))"

text \<open>Whether a call of \<^verbatim>\<open>load_model\<close> returned, and with which \<^verbatim>\<open>success\<close>.\<close>

fun returns_success :: "exn + load_result \<Rightarrow> bool" where
  "returns_success (Inr res) = success res"
| "returns_success (Inl e) = False"

fun returns_failure :: "exn + load_result \<Rightarrow> bool" where
  "returns_failure (Inr res) = (\<not> success res)"
| "returns_failure (Inl e) = False"

subsection \<open>\<^verbatim>\<open>transcribe_audio\<close>\<close>

text \<open>
  The parameters of the handler: the upload (its file name and its content) and the
  four form fields.
\<close>

record request =
  audio_filename :: string
  audio_file :: string
  rq_language :: string
  beam_size :: int
  vad_filter :: bool
  word_timestamps :: bool

text \<open>
  The dictionaries of the response. The key \<^verbatim>\<open>"words"\<close> of a segment dictionary is
  optional: \<open>None\<close> is the dictionary without the key, \<open>Some ws\<close> the dictionary that
  has it (\<open>Some []\<close> would be the key with an empty list).
\<close>

record word_dict =
  wd_word :: ustring
  wd_start :: real
  wd_end :: real

record segment_dict =
  sd_start :: real
  sd_end :: real
  sd_text :: ustring
  sd_words :: "word_dict list option"

record response =
  r_success :: bool
  r_language :: string
  r_language_probability :: real
  r_duration :: real
  r_model :: string
  r_device :: string
  r_text :: ustring
  r_segments :: "segment_dict list"

text \<open>
  What leaves the handler as an exception: the \<^verbatim>\<open>HTTPException\<close> it raises itself,
  with status code and detail, or an exception that no clause of the handler catches.
\<close>

datatype failure = HTTPException nat string | Uncaught exn

text \<open>
  \<^verbatim>\<open>str.strip()\<close> with no argument removes the characters for which
  \<^verbatim>\<open>str.isspace\<close> holds from both ends: the code points U+0009 to U+000D, U+001C to
  U+0020, U+0085, U+00A0, U+1680, U+2000 to U+200A, U+2028, U+2029, U+202F, U+205F and
  U+3000.
\<close>

definition isspace :: "nat \<Rightarrow> bool" where
  "isspace c =
     (c \<in> {9, 10, 11, 12, 13, 28, 29, 30, 31, 32, 133, 160, 5760, 8232, 8233, 8239, 8287,
            12288} \<or>
      (8192 \<le> c \<and> c \<le> 8202))"

definition strip :: "ustring \<Rightarrow> ustring" where
  "strip s = rev (dropWhile isspace (rev (dropWhile isspace s)))"

text \<open>The truth value of \<^verbatim>\<open>hasattr(segment, 'words') and segment.words\<close> (line 136).\<close>

fun has_words :: "words_attr \<Rightarrow> bool" where
  "has_words NoAttr = False"
| "has_words AttrNone = False"
| "has_words (AttrList ws) = (ws \<noteq> [])"

fun words_of :: "words_attr \<Rightarrow> word list" where
  "words_of (AttrList ws) = ws"
| "words_of _ = []"

definition word_entry :: "word \<Rightarrow> word_dict" where
  "word_entry w = \<lparr>wd_word = w_word w, wd_start = w_start w, wd_end = w_end w\<rparr>"

text \<open>Lines 131 to 140: the dictionary built for one segment.\<close>

definition segment_entry :: "segment \<Rightarrow> segment_dict" where
  "segment_entry sg =
     (let segment_dict =
            \<lparr>sd_start = s_start sg, sd_end = s_end sg, sd_text = s_text sg, sd_words = None\<rparr>
      in if has_words (s_words sg)
         then segment_dict\<lparr>sd_words := Some (map word_entry (words_of (s_words sg)))\<rparr>
         else segment_dict)"

text \<open>
  The loop of lines 130 to 142, with its two accumulators \<^verbatim>\<open>segments_data\<close> and
  \<^verbatim>\<open>full_text\<close>. The space appended after each text is the code point 32.
\<close>

fun segments_loop ::
  "segment list \<Rightarrow> segment_dict list \<Rightarrow> ustring \<Rightarrow> segment_dict list \<times> ustring" where
  "segments_loop [] segments_data full_text = (segments_data, full_text)"
| "segments_loop (sg # rest) segments_data full_text =
     segments_loop rest (segments_data @ [segment_entry sg]) (full_text @ s_text sg @ [32])"

text \<open>\<^verbatim>\<open>list(segments_generator)\<close> (line 127).\<close>

fun list_of :: "generator \<Rightarrow> exn + segment list" where
  "list_of (Generator segs None) = Inr segs"
| "list_of (Generator segs (Some e)) = Inl e"

text \<open>
  The body of the \<^verbatim>\<open>try\<close> (lines 112 to 152), given the name of the temporary file.
  Reading the unbound global \<^verbatim>\<open>model\<close> raises a \<^verbatim>\<open>NameError\<close>.
\<close>

definition transcribe_try ::
  "env \<Rightarrow> request \<Rightarrow> state \<Rightarrow> string \<Rightarrow> (exn + response) \<times> event list" where
  "transcribe_try en rq st tmp =
     (let ev1 = [CopyFileObj (audio_file rq) tmp] in
      case copyfileobj en (audio_file rq) tmp of
        Some e \<Rightarrow> (Inl e, ev1)
      | None \<Rightarrow>
     (let ev2 = ev1 @ [CloseTemp tmp] in
      case temp_file_close en tmp of
        Some e \<Rightarrow> (Inl e, ev2)
      | None \<Rightarrow>
     (let lang_param = (if rq_language rq = ''auto'' then None else Some (rq_language rq)) in
      case model st of
        None \<Rightarrow> (Inl (Exception ''name 'model' is not defined''), ev2)
      | Some m \<Rightarrow>
     (let ev3 = ev2 @ [Transcribe m tmp lang_param (beam_size rq) (vad_filter rq)
                         (word_timestamps rq)] in
      case model_transcribe en m tmp lang_param (beam_size rq) (vad_filter rq)
             (word_timestamps rq) of
        Inl e \<Rightarrow> (Inl e, ev3)
      | Inr (segments_generator, info) \<Rightarrow>
     (let ev4 = ev3 @ [Materialize segments_generator] in
      case list_of segments_generator of
        Inl e \<Rightarrow> (Inl e, ev4)
      | Inr segments_list \<Rightarrow>
     (case segments_loop segments_list [] [] of
        (segments_data, full_text) \<Rightarrow>
          (Inr \<lparr>r_success = True,
                r_language = language info,
                r_language_probability = round2 en (language_probability info),
                r_duration = round2 en (transcribe_time en),
                r_model = size_id (model_info st),
                r_device = device (model_info st),
                r_text = strip full_text,
                r_segments = segments_data\<rparr>,
           ev4)))))))"

text \<open>
  The \<^verbatim>\<open>except\<close> clause (lines 153 to 155): an instance of \<^verbatim>\<open>Exception\<close> becomes
  an \<^verbatim>\<open>HTTPException\<close> with its text; any other exception goes on unchanged.
\<close>

fun except_clause :: "exn + response \<Rightarrow> failure + response" where
  "except_clause (Inl e) =
     (if caught e then Inl (HTTPException 500 (str e)) else Inl (Uncaught e))"
| "except_clause (Inr r) = Inr r"

text \<open>
  The \<^verbatim>\<open>finally\<close> clause (lines 156 to 159), applied to the outcome that is pending
  when it starts: an exception raised by \<^verbatim>\<open>os.unlink\<close> takes the place of that
  outcome.
\<close>

definition finally_clause ::
  "env \<Rightarrow> string \<Rightarrow> failure + response \<Rightarrow> (failure + response) \<times> event list" where
  "finally_clause en tmp pending =
     (if path_exists en tmp then
        (case unlink en tmp of
           Some e \<Rightarrow> (Inl (Uncaught e), [PathExists tmp, Unlink tmp])
         | None \<Rightarrow> (pending, [PathExists tmp, Unlink tmp]))
      else (pending, [PathExists tmp]))"

text \<open>Lines 110 to 159: the temporary file is created outside the \<^verbatim>\<open>try\<close>.\<close>

definition transcribe_staged ::
  "env \<Rightarrow> request \<Rightarrow> state \<Rightarrow> (failure + response) \<times> event list" where
  "transcribe_staged en rq st =
     (let suffix = splitext_ext en (audio_filename rq) in
      case NamedTemporaryFile en suffix of
        Inl e \<Rightarrow> (Inl (Uncaught e), [CreateTemp suffix])
      | Inr tmp \<Rightarrow>
          (case transcribe_try en rq st tmp of
             (res, ev_try) \<Rightarrow>
               (case finally_clause en tmp (except_clause res) of
                  (out, ev_fin) \<Rightarrow> (out, [CreateTemp suffix] @ ev_try @ ev_fin))))"

text \<open>The handler (lines 93 to 159).\<close>

definition transcribe_audio ::
  "env \<Rightarrow> request \<Rightarrow> state \<Rightarrow> (failure + response) \<times> state \<times> event list" where
  "transcribe_audio en rq st =
     (if \<not> loaded (model_info st) then
        (case load_model en ''large-v3'' ''cuda'' st of
           (Inl e, st1, ev_load) \<Rightarrow> (Inl (Uncaught e), st1, ev_load)
         | (Inr load_result, st1, ev_load) \<Rightarrow>
             (if \<not> success load_result
              then (Inl (HTTPException 500 ''Model loading failed''), st1, ev_load)
              else (case transcribe_staged en rq st1 of
                      (out, evs) \<Rightarrow> (out, st1, ev_load @ evs))))
      else (case transcribe_staged en rq st of (out, evs) \<Rightarrow> (out, st, evs)))"

subsection \<open>The specification's wording of the full text\<close>

text \<open>
  The specification forms the full text by joining the segment texts with a single
  separating space and trimming the result. This definition follows those words; the
  handler's own computation is \<open>segments_loop\<close> followed by \<open>strip\<close>.
\<close>

fun join_space :: "ustring list \<Rightarrow> ustring" where
  "join_space [] = []"
| "join_space [t] = t"
| "join_space (t # ts) = t @ [32] @ join_space ts"

definition spec_full_text :: "ustring list \<Rightarrow> ustring" where
  "spec_full_text texts = strip (join_space texts)"

subsection \<open>A concrete environment\<close>

text \<open>
  The code points of an ASCII literal, and an engine whose GPU construction fails and whose CPU construction succeeds, and which
  yields two segments whatever the flags are: the first with one word, the second with
  an empty word list.
\<close>

definition ustr :: "string \<Rightarrow> ustring" where
  "ustr s = map of_char s"

definition demo_segments :: "segment list" where
  "demo_segments =
     [\<lparr>s_start = 0, s_end = 1, s_text = ustr '' hello'',
       s_words = AttrList [\<lparr>w_word = ustr '' hello'', w_start = 0, w_end = 1\<rparr>]\<rparr>,
      \<lparr>s_start = 1, s_end = 2, s_text = ustr '' world'', s_words = AttrList []\<rparr>]"

definition demo_env :: env where
  "demo_env =
     \<lparr>WhisperModel = (\<lambda>model_size dev compute_type.
        if dev = ''cuda'' then Inl (Exception ''CUDA driver not found'')
        else Inr (Handle 1)),
      splitext_ext = dropWhile (\<lambda>c. c \<noteq> CHR ''.''),
      NamedTemporaryFile = (\<lambda>suffix. Inr (''/tmp/tmpk3'' @ suffix)),
      copyfileobj = (\<lambda>content path. None),
      temp_file_close = (\<lambda>path. None),
      model_transcribe = (\<lambda>m path lang beam vad wts.
        Inr (Generator demo_segments None,
             \<lparr>language = (case lang of None \<Rightarrow> ''en'' | Some l \<Rightarrow> l),
              language_probability = 1\<rparr>)),
      transcribe_time = 2,
      round2 = (\<lambda>x. x),
      path_exists = (\<lambda>path. True),
      unlink = (\<lambda>path. None)\<rparr>"

definition demo_request :: request where
  "demo_request =
     \<lparr>audio_filename = ''audio.mp3'', audio_file = ''RIFF'', rq_language = ''auto'',
      beam_size = 5, vad_filter = True, word_timestamps = False\<rparr>"

definition not_ready :: state where
  "not_ready = \<lparr>model = None, model_info = \<lparr>size_id = '''', device = '''', loaded = False\<rparr>\<rparr>"

definition ready :: state where
  "ready =
     \<lparr>model = Some (Handle 1),
      model_info = \<lparr>size_id = ''small'', device = ''cpu'', loaded = True\<rparr>\<rparr>"

text \<open>The same environment with an engine that cannot be constructed on any device.\<close>

definition both_fail_env :: env where
  "both_fail_env =
     demo_env\<lparr>WhisperModel := (\<lambda>model_size dev compute_type.
        if dev = ''cuda'' then Inl (Exception ''CUDA driver not found'')
        else Inl (Exception ''out of memory''))\<rparr>"


text \<open>An engine that is constructed as before and raises when it is asked to transcribe.\<close>

definition decode_fails_env :: env where
  "decode_fails_env =
     demo_env\<lparr>model_transcribe := (\<lambda>m path lang beam vad wts.
        Inl (Exception ''decode error''))\<rparr>"

text \<open>The same, with an \<^verbatim>\<open>os.unlink\<close> that raises as well.\<close>

definition unlink_fails_env :: env where
  "unlink_fails_env =
     decode_fails_env\<lparr>unlink := (\<lambda>path. Some (Exception ''Permission denied''))\<rparr>"

text \<open>
  What the handler returns in \<open>demo_env\<close> for \<open>demo_request\<close>, and the calls it makes
  there when the model is loaded, for either value of the flag \<^verbatim>\<open>word_timestamps\<close>.
\<close>

definition demo_response :: response where
  "demo_response =
     \<lparr>r_success = True, r_language = ''en'', r_language_probability = 1,
      r_duration = 2, r_model = ''small'', r_device = ''cpu'',
      r_text = ustr ''hello  world'',
      r_segments =
        [\<lparr>sd_start = 0, sd_end = 1, sd_text = ustr '' hello'',
          sd_words = Some [\<lparr>wd_word = ustr '' hello'', wd_start = 0, wd_end = 1\<rparr>]\<rparr>,
         \<lparr>sd_start = 1, sd_end = 2, sd_text = ustr '' world'', sd_words = None\<rparr>]\<rparr>"

definition demo_events :: "bool \<Rightarrow> event list" where
  "demo_events wts =
     [CreateTemp ''.mp3'', CopyFileObj ''RIFF'' ''/tmp/tmpk3.mp3'',
      CloseTemp ''/tmp/tmpk3.mp3'',
      Transcribe (Handle 1) ''/tmp/tmpk3.mp3'' None 5 True wts,
      Materialize (Generator demo_segments None),
      PathExists ''/tmp/tmpk3.mp3'', Unlink ''/tmp/tmpk3.mp3'']"


text \<open>The calls of a run in which the engine raises when asked to transcribe.\<close>

definition decode_fails_events :: "event list" where
  "decode_fails_events =
     [CreateTemp ''.mp3'', CopyFileObj ''RIFF'' ''/tmp/tmpk3.mp3'',
      CloseTemp ''/tmp/tmpk3.mp3'',
      Transcribe (Handle 1) ''/tmp/tmpk3.mp3'' None 5 True False,
      PathExists ''/tmp/tmpk3.mp3'', Unlink ''/tmp/tmpk3.mp3'']"

section \<open>Properties of \<^verbatim>\<open>load_model\<close>\<close>

lemma sublist_prefixed: "sublist t (p @ t)"
  by (metis append_Nil2 sublist_appendI)

lemma load_model_try_events:
  "load_model_try en model_size dev st = (res, evs) \<Longrightarrow> list_all is_construct evs"
  by (auto simp: load_model_try_def split: if_splits sum.splits)

lemma load_model_events:
  "load_model en model_size dev st = (res, st', evs) \<Longrightarrow> list_all is_construct evs"
  by (auto simp: load_model_def split: prod.splits sum.splits if_splits
      dest: load_model_try_events)

text \<open>
  Claim C2. A construction fails when it raises an instance of \<^verbatim>\<open>Exception\<close>. When
  \<^verbatim>\<open>load_model\<close> is called with the device \<^verbatim>\<open>"cuda"\<close>, the GPU construction fails
  and the construction of the \<^verbatim>\<open>"small"\<close> model on the CPU succeeds, the call returns
  the success dictionary with the fallback message, and the globals afterwards hold the
  new engine with \<^verbatim>\<open>model_info = {"size": "small", "device": "cpu", "loaded": True}\<close>.
  The two constructions are made in that order and no other.
\<close>

theorem load_model_fallback:
  assumes "WhisperModel en model_size ''cuda'' ''float16'' = Inl e"
    and "caught e"
    and "WhisperModel en ''small'' ''cpu'' ''int8'' = Inr m"
  shows "load_model en model_size ''cuda'' st =
     (Inr \<lparr>success = True,
           message = Some ''GPU load failed, fallback to CPU model (small)'',
           error = None\<rparr>,
      \<lparr>model = Some m,
       model_info = \<lparr>size_id = ''small'', device = ''cpu'', loaded = True\<rparr>\<rparr>,
      [Construct model_size ''cuda'' ''float16'', Construct ''small'' ''cpu'' ''int8''])"
  using assms by (simp add: load_model_def load_model_try_def)

theorem load_model_fallback_witness:
  "WhisperModel demo_env ''large-v3'' ''cuda'' ''float16'' =
     Inl (Exception ''CUDA driver not found'') \<and>
   caught (Exception ''CUDA driver not found'') \<and>
   WhisperModel demo_env ''small'' ''cpu'' ''int8'' = Inr (Handle 1) \<and>
   load_model demo_env ''large-v3'' ''cuda'' not_ready =
     (Inr \<lparr>success = True,
           message = Some ''GPU load failed, fallback to CPU model (small)'',
           error = None\<rparr>,
      \<lparr>model = Some (Handle 1),
       model_info = \<lparr>size_id = ''small'', device = ''cpu'', loaded = True\<rparr>\<rparr>,
      [Construct ''large-v3'' ''cuda'' ''float16'', Construct ''small'' ''cpu'' ''int8''])"
proof -
  have h1: "WhisperModel demo_env ''large-v3'' ''cuda'' ''float16'' =
      Inl (Exception ''CUDA driver not found'')"
    by (simp add: demo_env_def)
  have h2: "caught (Exception ''CUDA driver not found'')"
    by simp
  have h3: "WhisperModel demo_env ''small'' ''cpu'' ''int8'' = Inr (Handle 1)"
    by (simp add: demo_env_def)
  show ?thesis using h1 h3 load_model_fallback [OF h1 h2 h3, of not_ready] by simp
qed

text \<open>
  Claim C3. When \<^verbatim>\<open>load_model\<close> is called with the device \<^verbatim>\<open>"cuda"\<close> and both the
  GPU construction and the CPU fallback fail, each with an instance of
  \<^verbatim>\<open>Exception\<close>, \<^verbatim>\<open>model_info["loaded"]\<close> is false afterwards and the call returns
  the failure dictionary whose error is \<^verbatim>\<open>"Model load failed: "\<close> followed by the
  text of the second exception. That text contains the second exception's text, and it
  is the first exception's text after the same prefix only when the two texts are equal.
\<close>

theorem load_model_double_failure:
  assumes "WhisperModel en model_size ''cuda'' ''float16'' = Inl e1"
    and "caught e1"
    and "WhisperModel en ''small'' ''cpu'' ''int8'' = Inl e2"
    and "caught e2"
  shows "load_model en model_size ''cuda'' st =
     (Inr \<lparr>success = False, message = None,
           error = Some (''Model load failed: '' @ str e2)\<rparr>,
      st\<lparr>model_info := \<lparr>size_id = [], device = [], loaded = False\<rparr>\<rparr>,
      [Construct model_size ''cuda'' ''float16'', Construct ''small'' ''cpu'' ''int8'']) \<and>
     \<not> loaded (model_info (fst (snd (load_model en model_size ''cuda'' st)))) \<and>
     returns_failure (fst (load_model en model_size ''cuda'' st)) \<and>
     sublist (str e2) (''Model load failed: '' @ str e2) \<and>
     (fst (load_model en model_size ''cuda'' st) =
        Inr \<lparr>success = False, message = None,
             error = Some (''Model load failed: '' @ str e1)\<rparr>
        \<longleftrightarrow> str e1 = str e2)"
proof -
  let ?res = "load_model en model_size ''cuda'' st"
  have eq: "?res =
     (Inr \<lparr>success = False, message = None,
           error = Some (''Model load failed: '' @ str e2)\<rparr>,
      st\<lparr>model_info := \<lparr>size_id = [], device = [], loaded = False\<rparr>\<rparr>,
      [Construct model_size ''cuda'' ''float16'', Construct ''small'' ''cpu'' ''int8''])"
    using assms by (simp add: load_model_def load_model_try_def)
  have sub: "sublist (str e2) (''Model load failed: '' @ str e2)"
    by (rule sublist_prefixed)
  have "fst ?res =
        Inr \<lparr>success = False, message = None,
             error = Some (''Model load failed: '' @ str e1)\<rparr>
        \<longleftrightarrow> str e1 = str e2"
    by (auto simp: eq)
  with eq sub show ?thesis by simp
qed

theorem load_model_double_failure_witness:
  "WhisperModel both_fail_env ''large-v3'' ''cuda'' ''float16'' =
     Inl (Exception ''CUDA driver not found'') \<and>
   caught (Exception ''CUDA driver not found'') \<and>
   WhisperModel both_fail_env ''small'' ''cpu'' ''int8'' = Inl (Exception ''out of memory'') \<and>
   caught (Exception ''out of memory'') \<and>
   load_model both_fail_env ''large-v3'' ''cuda'' ready =
     (Inr \<lparr>success = False, message = None,
           error = Some ''Model load failed: out of memory''\<rparr>,
      \<lparr>model = Some (Handle 1),
       model_info = \<lparr>size_id = [], device = [], loaded = False\<rparr>\<rparr>,
      [Construct ''large-v3'' ''cuda'' ''float16'', Construct ''small'' ''cpu'' ''int8''])"
proof -
  have h1: "WhisperModel both_fail_env ''large-v3'' ''cuda'' ''float16'' =
      Inl (Exception ''CUDA driver not found'')"
    by (simp add: both_fail_env_def demo_env_def)
  have h2: "caught (Exception ''CUDA driver not found'')"
    by simp
  have h3: "WhisperModel both_fail_env ''small'' ''cpu'' ''int8'' =
      Inl (Exception ''out of memory'')"
    by (simp add: both_fail_env_def demo_env_def)
  have h4: "caught (Exception ''out of memory'')"
    by simp
  show ?thesis using h1 h3 load_model_double_failure [OF h1 h2 h3 h4, of ready]
    by (simp add: ready_def)
qed




section \<open>Properties of \<^verbatim>\<open>transcribe_audio\<close>\<close>

subsection \<open>The loop and the full text\<close>

lemma construct_only: "is_construct e \<Longrightarrow> \<not> is_create e \<and> \<not> is_unlink e"
  by (cases e) simp_all

lemma segments_loop_eq:
  "segments_loop segs segments_data full_text =
     (segments_data @ map segment_entry segs,
      full_text @ concat (map (\<lambda>sg. s_text sg @ [32]) segs))"
  by (induction segs arbitrary: segments_data full_text) simp_all

lemma isspace_space: "isspace 32"
  by (simp add: isspace_def)

lemma strip_append_space: "strip (s @ [32]) = strip s"
proof (cases "\<forall>c\<in>set s. isspace c")
  case True
  then have a: "dropWhile isspace s = []" and b: "dropWhile isspace (s @ [32]) = []"
    by (simp_all add: isspace_space)
  show ?thesis unfolding strip_def a b by simp
next
  case False
  then obtain c where "c \<in> set s" "\<not> isspace c" by blast
  then have "dropWhile isspace (s @ [32]) = dropWhile isspace s @ [32]"
    by (simp add: dropWhile_append1)
  then show ?thesis by (simp add: strip_def isspace_space)
qed

lemma concat_join_space:
  "ts \<noteq> [] \<Longrightarrow> concat (map (\<lambda>t. t @ [32]) ts) = join_space ts @ [32]"
  by (induction ts rule: join_space.induct) simp_all

lemma strip_Nil: "strip [] = []"
  by (simp add: strip_def)

lemma strip_concat_eq_spec:
  "strip (concat (map (\<lambda>sg. s_text sg @ [32]) segs)) = spec_full_text (map s_text segs)"
proof (cases "segs = []")
  case True
  then show ?thesis by (simp add: spec_full_text_def)
next
  case False
  then have "concat (map (\<lambda>t. t @ [32]) (map s_text segs)) =
      join_space (map s_text segs) @ [32]"
    by (intro concat_join_space) simp
  then show ?thesis
    by (simp add: spec_full_text_def strip_append_space comp_def)
qed

lemma sd_words_segment_entry:
  "sd_words (segment_entry sg) =
     (if has_words (s_words sg) then Some (map word_entry (words_of (s_words sg))) else None)"
  by (simp add: segment_entry_def Let_def)

subsection \<open>The blocks of the handler\<close>

lemma list_of_Inr: "list_of g = Inr segs \<Longrightarrow> raises g = None \<and> yields g = segs"
  by (cases g; cases "raises g") auto

lemma transcribe_try_Inr:
  assumes "transcribe_try en rq st tmp = (Inr r, evs)"
  shows "\<exists>m gen info.
           model st = Some m \<and>
           model_transcribe en m tmp
             (if rq_language rq = ''auto'' then None else Some (rq_language rq))
             (beam_size rq) (vad_filter rq) (word_timestamps rq) = Inr (gen, info) \<and>
           raises gen = None \<and>
           evs = [CopyFileObj (audio_file rq) tmp, CloseTemp tmp,
                  Transcribe m tmp
                    (if rq_language rq = ''auto'' then None else Some (rq_language rq))
                    (beam_size rq) (vad_filter rq) (word_timestamps rq),
                  Materialize gen] \<and>
           r_text r = strip (concat (map (\<lambda>sg. s_text sg @ [32]) (yields gen))) \<and>
           r_segments r = map segment_entry (yields gen)"
  using assms
  by (auto simp: transcribe_try_def Let_def segments_loop_eq
      split: option.splits sum.splits prod.splits dest!: list_of_Inr)

lemma transcribe_try_no_cleanup:
  "transcribe_try en rq st tmp = (res, evs) \<Longrightarrow>
     list_all (\<lambda>e. \<not> is_unlink e \<and> \<not> is_create e \<and> \<not> is_construct e) evs"
  by (auto simp: transcribe_try_def Let_def
      split: option.splits sum.splits prod.splits)

lemma try_call_args:
  "transcribe_try en rq st tmp = (res, evs) \<Longrightarrow> Transcribe m p l b v w \<in> set evs \<Longrightarrow>
     l = (if rq_language rq = ''auto'' then None else Some (rq_language rq)) \<and>
     w = word_timestamps rq"
  by (auto simp: transcribe_try_def Let_def
      split: option.splits sum.splits prod.splits if_splits)

lemma finally_clause_eq:
  "finally_clause en tmp pending =
     (if path_exists en tmp \<and> unlink en tmp \<noteq> None
      then Inl (Uncaught (the (unlink en tmp))) else pending,
      PathExists tmp # (if path_exists en tmp then [Unlink tmp] else []))"
  by (auto simp: finally_clause_def split: option.splits)

lemma transcribe_staged_Inr:
  assumes "NamedTemporaryFile en (splitext_ext en (audio_filename rq)) = Inr tmp"
  shows "transcribe_staged en rq st =
     (fst (finally_clause en tmp (except_clause (fst (transcribe_try en rq st tmp)))),
      CreateTemp (splitext_ext en (audio_filename rq)) # snd (transcribe_try en rq st tmp) @
        snd (finally_clause en tmp (except_clause (fst (transcribe_try en rq st tmp)))))"
  using assms by (simp add: transcribe_staged_def Let_def split: prod.splits)

lemma transcribe_staged_Inl:
  assumes "NamedTemporaryFile en (splitext_ext en (audio_filename rq)) = Inl e"
  shows "transcribe_staged en rq st =
     (Inl (Uncaught e), [CreateTemp (splitext_ext en (audio_filename rq))])"
  using assms by (simp add: transcribe_staged_def Let_def)

text \<open>
  A run of the handler is the calls of the default load, if the model was not loaded,
  followed by the calls of lines 110 to 159, unless the load failed.
\<close>

lemma transcribe_audio_cases:
  assumes "transcribe_audio en rq st = (out, st', evs)"
  shows "\<exists>ev_load evs'. evs = ev_load @ evs' \<and> list_all is_construct ev_load \<and>
           (loaded (model_info st) \<longrightarrow> ev_load = [] \<and> st' = st) \<and>
           (\<not> loaded (model_info st) \<longrightarrow>
              st' = fst (snd (load_model en ''large-v3'' ''cuda'' st)) \<and>
              ev_load = snd (snd (load_model en ''large-v3'' ''cuda'' st))) \<and>
           (if loaded (model_info st) \<or>
               returns_success (fst (load_model en ''large-v3'' ''cuda'' st))
            then transcribe_staged en rq st' = (out, evs')
            else evs' = [] \<and>
                 out = (case fst (load_model en ''large-v3'' ''cuda'' st) of
                          Inl e \<Rightarrow> Inl (Uncaught e)
                        | Inr res \<Rightarrow> Inl (HTTPException 500 ''Model loading failed'')))"
proof (cases "loaded (model_info st)")
  case True
  with assms show ?thesis
    by (auto simp: transcribe_audio_def split: prod.splits)
next
  case False
  obtain lr st1 ev1 where l: "load_model en ''large-v3'' ''cuda'' st = (lr, st1, ev1)"
    by (cases "load_model en ''large-v3'' ''cuda'' st") auto
  from l have c: "list_all is_construct ev1" by (rule load_model_events)
  from assms False l c show ?thesis
    by (cases lr) (auto simp: transcribe_audio_def split: prod.splits if_splits)
qed

lemma transcribe_staged_success:
  assumes "transcribe_staged en rq st = (Inr r, evs)"
  shows "\<exists>tmp m gen info.
           NamedTemporaryFile en (splitext_ext en (audio_filename rq)) = Inr tmp \<and>
           model st = Some m \<and>
           model_transcribe en m tmp
             (if rq_language rq = ''auto'' then None else Some (rq_language rq))
             (beam_size rq) (vad_filter rq) (word_timestamps rq) = Inr (gen, info) \<and>
           raises gen = None \<and>
           evs = [CreateTemp (splitext_ext en (audio_filename rq)),
                  CopyFileObj (audio_file rq) tmp, CloseTemp tmp,
                  Transcribe m tmp
                    (if rq_language rq = ''auto'' then None else Some (rq_language rq))
                    (beam_size rq) (vad_filter rq) (word_timestamps rq),
                  Materialize gen, PathExists tmp] @
                 (if path_exists en tmp then [Unlink tmp] else []) \<and>
           r_text r = strip (concat (map (\<lambda>sg. s_text sg @ [32]) (yields gen))) \<and>
           r_segments r = map segment_entry (yields gen)"
proof (cases "NamedTemporaryFile en (splitext_ext en (audio_filename rq))")
  case (Inl e)
  with assms show ?thesis by (simp add: transcribe_staged_Inl)
next
  case (Inr tmp)
  obtain res ev_try where t: "transcribe_try en rq st tmp = (res, ev_try)"
    by (cases "transcribe_try en rq st tmp") auto
  from assms Inr t have "res = Inr r"
    by (cases res) (auto simp: transcribe_staged_Inr finally_clause_eq split: if_splits)
  with t have t': "transcribe_try en rq st tmp = (Inr r, ev_try)" by simp
  from transcribe_try_Inr [OF t'] assms Inr t' show ?thesis
    by (auto simp: transcribe_staged_Inr finally_clause_eq split: if_splits)
qed

lemma transcribe_audio_success:
  assumes "transcribe_audio en rq st = (Inr r, st', evs)"
  shows "\<exists>ev_load tmp m gen info.
           list_all is_construct ev_load \<and>
           NamedTemporaryFile en (splitext_ext en (audio_filename rq)) = Inr tmp \<and>
           model st' = Some m \<and>
           model_transcribe en m tmp
             (if rq_language rq = ''auto'' then None else Some (rq_language rq))
             (beam_size rq) (vad_filter rq) (word_timestamps rq) = Inr (gen, info) \<and>
           raises gen = None \<and>
           evs = ev_load @
                 [CreateTemp (splitext_ext en (audio_filename rq)),
                  CopyFileObj (audio_file rq) tmp, CloseTemp tmp,
                  Transcribe m tmp
                    (if rq_language rq = ''auto'' then None else Some (rq_language rq))
                    (beam_size rq) (vad_filter rq) (word_timestamps rq),
                  Materialize gen, PathExists tmp] @
                 (if path_exists en tmp then [Unlink tmp] else []) \<and>
           r_text r = strip (concat (map (\<lambda>sg. s_text sg @ [32]) (yields gen))) \<and>
           r_segments r = map segment_entry (yields gen)"
proof -
  from transcribe_audio_cases [OF assms] obtain ev_load evs' where
    e: "evs = ev_load @ evs'" and c: "list_all is_construct ev_load" and
    s: "transcribe_staged en rq st' = (Inr r, evs')"
    by (auto split: if_splits sum.splits)
  from transcribe_staged_success [OF s] e c show ?thesis
    by (elim exE conjE) (intro exI conjI, assumption+, simp, assumption+)
qed

lemma transcribe_audio_success_gen:
  assumes "transcribe_audio en rq st = (Inr r, st', evs)" and "Materialize g \<in> set evs"
  shows "raises g = None \<and>
         r_text r = strip (concat (map (\<lambda>sg. s_text sg @ [32]) (yields g))) \<and>
         r_segments r = map segment_entry (yields g)"
proof -
  from transcribe_audio_success [OF assms(1)] obtain ev_load tmp m gen where
    c: "list_all is_construct ev_load" and
    r: "raises gen = None" and
    e: "evs = ev_load @
                 [CreateTemp (splitext_ext en (audio_filename rq)),
                  CopyFileObj (audio_file rq) tmp, CloseTemp tmp,
                  Transcribe m tmp
                    (if rq_language rq = ''auto'' then None else Some (rq_language rq))
                    (beam_size rq) (vad_filter rq) (word_timestamps rq),
                  Materialize gen, PathExists tmp] @
                 (if path_exists en tmp then [Unlink tmp] else [])" and
    t: "r_text r = strip (concat (map (\<lambda>sg. s_text sg @ [32]) (yields gen)))" and
    g: "r_segments r = map segment_entry (yields gen)"
    by blast
  from c have "Materialize g \<notin> set ev_load"
    by (auto simp: list_all_iff)
  with assms(2) e have "g = gen" by (auto split: if_splits)
  with r t g show ?thesis by simp
qed

lemma staged_call_args:
  assumes "transcribe_staged en rq st = (out, evs)" and "Transcribe m p l b v w \<in> set evs"
  shows "l = (if rq_language rq = ''auto'' then None else Some (rq_language rq)) \<and>
         w = word_timestamps rq"
proof (cases "NamedTemporaryFile en (splitext_ext en (audio_filename rq))")
  case (Inl e)
  with assms show ?thesis by (auto simp: transcribe_staged_Inl)
next
  case (Inr tmp)
  obtain res ev_try where t: "transcribe_try en rq st tmp = (res, ev_try)"
    by (cases "transcribe_try en rq st tmp") auto
  from assms Inr t have "Transcribe m p l b v w \<in> set ev_try"
    by (auto simp: transcribe_staged_Inr finally_clause_eq split: if_splits)
  with t show ?thesis by (rule try_call_args)
qed

lemma handler_call_args:
  assumes "transcribe_audio en rq st = (out, st', evs)" and "Transcribe m p l b v w \<in> set evs"
  shows "l = (if rq_language rq = ''auto'' then None else Some (rq_language rq)) \<and>
         w = word_timestamps rq"
proof -
  from transcribe_audio_cases [OF assms(1)] obtain ev_load evs' where
    e: "evs = ev_load @ evs'" and c: "list_all is_construct ev_load" and
    s: "transcribe_staged en rq st' = (out, evs') \<or> evs' = []"
    by (auto split: if_splits sum.splits)
  from c have "Transcribe m p l b v w \<notin> set ev_load" by (auto simp: list_all_iff)
  with assms(2) e have in_evs': "Transcribe m p l b v w \<in> set evs'" by simp
  with s have "transcribe_staged en rq st' = (out, evs')" by auto
  then show ?thesis using in_evs' by (rule staged_call_args)
qed



lemma transcribe_staged_effects:
  assumes "NamedTemporaryFile en (splitext_ext en (audio_filename rq)) = Inr tmp"
    and "transcribe_staged en rq st = (out, evs)"
  shows "filter is_create evs = [CreateTemp (splitext_ext en (audio_filename rq))] \<and>
         filter is_unlink evs = (if path_exists en tmp then [Unlink tmp] else []) \<and>
         filter is_construct evs = [] \<and>
         out = (if path_exists en tmp
                then (case unlink en tmp of
                        None \<Rightarrow> except_clause (fst (transcribe_try en rq st tmp))
                      | Some e \<Rightarrow> Inl (Uncaught e))
                else except_clause (fst (transcribe_try en rq st tmp)))"
proof -
  obtain res ev_try where t: "transcribe_try en rq st tmp = (res, ev_try)"
    by (cases "transcribe_try en rq st tmp") auto
  from transcribe_try_no_cleanup [OF t]
  have "filter is_create ev_try = []" "filter is_unlink ev_try = []"
    "filter is_construct ev_try = []"
    by (auto simp: list_all_iff filter_empty_conv)
  with assms t show ?thesis
    by (auto simp: transcribe_staged_Inr finally_clause_eq split: option.splits)
qed

subsection \<open>Runs in the concrete environments\<close>

lemmas run_defs = transcribe_audio_def transcribe_staged_def transcribe_try_def
  finally_clause_def load_model_def load_model_try_def segment_entry_def word_entry_def
  strip_def isspace_def ustr_def Let_def

lemma demo_run:
  "transcribe_audio demo_env (demo_request\<lparr>word_timestamps := w\<rparr>) ready =
     (Inr demo_response, ready, demo_events w)"
  by (simp add: run_defs demo_env_def demo_request_def ready_def demo_segments_def
      demo_response_def demo_events_def)

lemma demo_request_flag: "demo_request\<lparr>word_timestamps := False\<rparr> = demo_request"
  by (simp add: demo_request_def)

lemma demo_run_False:
  "transcribe_audio demo_env demo_request ready = (Inr demo_response, ready, demo_events False)"
  using demo_run [of False] by (simp add: demo_request_flag)


lemma demo_materialize: "Materialize (Generator demo_segments None) \<in> set (demo_events w)"
  by (simp add: demo_events_def)

lemma demo_tmp:
  "NamedTemporaryFile demo_env (splitext_ext demo_env (audio_filename demo_request)) =
     Inr ''/tmp/tmpk3.mp3''"
  by (simp add: demo_env_def demo_request_def)

lemma decode_fails_run:
  "transcribe_audio decode_fails_env demo_request ready =
     (Inl (HTTPException 500 ''decode error''), ready, decode_fails_events)"
  by (simp add: run_defs decode_fails_env_def demo_env_def demo_request_def ready_def
      decode_fails_events_def)

lemma unlink_fails_run:
  "transcribe_audio unlink_fails_env demo_request ready =
     (Inl (Uncaught (Exception ''Permission denied'')), ready, decode_fails_events)"
  by (simp add: run_defs unlink_fails_env_def decode_fails_env_def demo_env_def
      demo_request_def ready_def decode_fails_events_def)

lemma unlink_fails_try:
  "fst (transcribe_try unlink_fails_env demo_request ready ''/tmp/tmpk3.mp3'') =
     Inl (Exception ''decode error'')"
  by (simp add: run_defs unlink_fails_env_def decode_fails_env_def demo_env_def
      demo_request_def ready_def)

lemma both_fail_run:
  "transcribe_audio both_fail_env demo_request not_ready =
     (Inl (HTTPException 500 ''Model loading failed''), not_ready,
      [Construct ''large-v3'' ''cuda'' ''float16'', Construct ''small'' ''cpu'' ''int8''])"
  by (simp add: run_defs both_fail_env_def demo_env_def demo_request_def not_ready_def)

lemma both_fail_load:
  "load_model both_fail_env ''large-v3'' ''cuda'' not_ready =
     (Inr \<lparr>success = False, message = None,
           error = Some ''Model load failed: out of memory''\<rparr>,
      not_ready,
      [Construct ''large-v3'' ''cuda'' ''float16'', Construct ''small'' ''cpu'' ''int8''])"
  by (simp add: load_model_def load_model_try_def both_fail_env_def demo_env_def
      not_ready_def)

subsection \<open>The model is loaded before anything is staged\<close>

text \<open>
  Claim C6. A request that arrives while \<^verbatim>\<open>model_info["loaded"]\<close> is false makes the
  handler call \<^verbatim>\<open>load_model\<close> with its default arguments \<^verbatim>\<open>"large-v3"\<close> and
  \<^verbatim>\<open>"cuda"\<close>: the globals after the request are those that call leaves, and the
  calls of the request start with the calls of that load. If the load returns a
  dictionary that reports failure,
  the request ends with \<^verbatim>\<open>HTTPException(500, "Model loading failed")\<close> and the calls
  of the load are all the calls the request makes: they are constructions only, so no
  temporary file is created and nothing is read from the upload.
\<close>

theorem model_unavailable_before_staging:
  assumes "\<not> loaded (model_info st)"
    and "transcribe_audio en rq st = (out, st', evs)"
  shows "st' = fst (snd (load_model en ''large-v3'' ''cuda'' st)) \<and>
         prefix (snd (snd (load_model en ''large-v3'' ''cuda'' st))) evs \<and>
         (returns_failure (fst (load_model en ''large-v3'' ''cuda'' st)) \<longrightarrow>
            out = Inl (HTTPException 500 ''Model loading failed'') \<and>
            evs = snd (snd (load_model en ''large-v3'' ''cuda'' st)) \<and>
            list_all is_construct evs)"
proof -
  from transcribe_audio_cases [OF assms(2)] assms(1) obtain ev_load evs' where
    e: "evs = ev_load @ evs'" and c: "list_all is_construct ev_load" and
    s: "st' = fst (snd (load_model en ''large-v3'' ''cuda'' st))" and
    l: "ev_load = snd (snd (load_model en ''large-v3'' ''cuda'' st))" and
    f: "returns_failure (fst (load_model en ''large-v3'' ''cuda'' st)) \<longrightarrow>
          out = Inl (HTTPException 500 ''Model loading failed'') \<and> evs' = []"
    by (cases "fst (load_model en ''large-v3'' ''cuda'' st)") (auto split: if_splits)
  from e l have "prefix (snd (snd (load_model en ''large-v3'' ''cuda'' st))) evs"
    by simp
  with e c s l f show ?thesis by auto
qed

theorem model_unavailable_before_staging_witness:
  "\<not> loaded (model_info not_ready) \<and>
   returns_failure (fst (load_model both_fail_env ''large-v3'' ''cuda'' not_ready)) \<and>
   transcribe_audio both_fail_env demo_request not_ready =
     (Inl (HTTPException 500 ''Model loading failed''), not_ready,
      [Construct ''large-v3'' ''cuda'' ''float16'', Construct ''small'' ''cpu'' ''int8'']) \<and>
   [Construct ''large-v3'' ''cuda'' ''float16'', Construct ''small'' ''cpu'' ''int8''] =
     snd (snd (load_model both_fail_env ''large-v3'' ''cuda'' not_ready)) \<and>
   list_all is_construct
     [Construct ''large-v3'' ''cuda'' ''float16'', Construct ''small'' ''cpu'' ''int8'']"
proof -
  have h1: "\<not> loaded (model_info not_ready)"
    by (simp add: not_ready_def)
  have h2: "returns_failure (fst (load_model both_fail_env ''large-v3'' ''cuda'' not_ready))"
    by (simp add: both_fail_load)
  from model_unavailable_before_staging [OF h1 both_fail_run] h2
  have "[Construct ''large-v3'' ''cuda'' ''float16'', Construct ''small'' ''cpu'' ''int8''] =
      snd (snd (load_model both_fail_env ''large-v3'' ''cuda'' not_ready)) \<and>
    list_all is_construct
      [Construct ''large-v3'' ''cuda'' ''float16'', Construct ''small'' ''cpu'' ''int8'']"
    by blast
  with h1 h2 both_fail_run show ?thesis by blast
qed

subsection \<open>The language passed to the engine\<close>



subsection \<open>Materialization comes before the removal\<close>

text \<open>
  Claim C8. In every request that returns a response, the calls of the run contain the
  materialization \<^verbatim>\<open>list(segments_generator)\<close> of the generator the engine returned;
  that materialization ran to the end of the generator, the response is built from the
  list it produced, and no \<^verbatim>\<open>os.unlink\<close> is among the calls made before it.
\<close>

theorem materialize_before_unlink:
  assumes "transcribe_audio en rq st = (Inr r, st', evs)"
  shows "\<exists>pre gen post.
           evs = pre @ Materialize gen # post \<and>
           list_of gen = Inr (yields gen) \<and>
           r_segments r = map segment_entry (yields gen) \<and>
           list_all (\<lambda>e. \<not> is_unlink e) pre"
proof -
  from transcribe_audio_success [OF assms] obtain ev_load tmp m gen where
    c: "list_all is_construct ev_load" and
    r: "raises gen = None" and
    e: "evs = ev_load @
                 [CreateTemp (splitext_ext en (audio_filename rq)),
                  CopyFileObj (audio_file rq) tmp, CloseTemp tmp,
                  Transcribe m tmp
                    (if rq_language rq = ''auto'' then None else Some (rq_language rq))
                    (beam_size rq) (vad_filter rq) (word_timestamps rq),
                  Materialize gen, PathExists tmp] @
                 (if path_exists en tmp then [Unlink tmp] else [])" and
    g: "r_segments r = map segment_entry (yields gen)"
    by blast
  let ?pre = "ev_load @
                 [CreateTemp (splitext_ext en (audio_filename rq)),
                  CopyFileObj (audio_file rq) tmp, CloseTemp tmp,
                  Transcribe m tmp
                    (if rq_language rq = ''auto'' then None else Some (rq_language rq))
                    (beam_size rq) (vad_filter rq) (word_timestamps rq)]"
  let ?post = "PathExists tmp # (if path_exists en tmp then [Unlink tmp] else [])"
  from e have 1: "evs = ?pre @ Materialize gen # ?post" by simp
  from r have 2: "list_of gen = Inr (yields gen)" by (cases gen) simp
  from c have "list_all (\<lambda>e. \<not> is_unlink e) ev_load"
    by (auto simp: list_all_iff dest: construct_only)
  then have 3: "list_all (\<lambda>e. \<not> is_unlink e) ?pre" by simp
  from 1 2 g 3 show ?thesis by blast
qed

theorem materialize_before_unlink_witness:
  "transcribe_audio demo_env demo_request ready =
     (Inr demo_response, ready, demo_events False) \<and>
   (\<exists>pre gen post.
      demo_events False = pre @ Materialize gen # post \<and>
      list_of gen = Inr (yields gen) \<and>
      r_segments demo_response = map segment_entry (yields gen) \<and>
      list_all (\<lambda>e. \<not> is_unlink e) pre)"
  using materialize_before_unlink [OF demo_run_False] demo_run_False by simp

subsection \<open>The full text\<close>

text \<open>
  Claim C5. In every request that returns a response, the field \<^verbatim>\<open>text\<close> of the
  response is the texts of the materialized segments joined by single spaces and then
  trimmed at both ends, in the specification's wording \<open>spec_full_text\<close>; when the
  engine yields no segment it is the empty string.
\<close>

theorem full_text_is_trimmed_join:
  assumes "transcribe_audio en rq st = (Inr r, st', evs)"
    and "Materialize gen \<in> set evs"
  shows "r_text r = spec_full_text (map s_text (yields gen)) \<and>
         (yields gen = [] \<longrightarrow> r_text r = [])"
  using transcribe_audio_success_gen [OF assms]
  by (auto simp: strip_concat_eq_spec strip_Nil spec_full_text_def)

theorem full_text_is_trimmed_join_witness:
  "transcribe_audio demo_env demo_request ready =
     (Inr demo_response, ready, demo_events False) \<and>
   Materialize (Generator demo_segments None) \<in> set (demo_events False) \<and>
   r_text demo_response = spec_full_text [ustr '' hello'', ustr '' world''] \<and>
   r_text demo_response = ustr ''hello  world''"
proof -
  from full_text_is_trimmed_join [OF demo_run_False demo_materialize]
  have "r_text demo_response = spec_full_text [ustr '' hello'', ustr '' world'']"
    by (simp add: demo_segments_def)
  moreover have "r_text demo_response = ustr ''hello  world''"
    by (simp add: demo_response_def)
  ultimately show ?thesis using demo_run_False demo_materialize by simp
qed

subsection \<open>The key \<^verbatim>\<open>words\<close> of a segment\<close>

text \<open>
  Claim C1, as the specification states it, fails: the handler does not look at
  \<^verbatim>\<open>word_timestamps\<close> when it builds a segment dictionary. In \<open>demo_env\<close> the engine
  yields a first segment with one word whatever the flag is, and the response to the
  request with \<^verbatim>\<open>word_timestamps = False\<close> has the key \<^verbatim>\<open>words\<close> in its first
  segment.
\<close>

theorem words_without_request_counterexample:
  "word_timestamps demo_request = False \<and>
   fst (transcribe_audio demo_env demo_request ready) = Inr demo_response \<and>
   map sd_words (r_segments demo_response) =
     [Some [\<lparr>wd_word = ustr '' hello'', wd_start = 0, wd_end = 1\<rparr>], None]"
  using demo_run_False by (simp add: demo_request_def demo_response_def)

text \<open>
  Claim C1, amended. In every request with \<^verbatim>\<open>word_timestamps = False\<close> that returns a
  response, the flag passed to the engine is false, and a segment dictionary of the
  response has the key \<^verbatim>\<open>words\<close> exactly when the segment the engine yielded has an
  attribute \<^verbatim>\<open>words\<close> that is a non-empty list.
\<close>

theorem words_present_iff_engine_words:
  assumes "transcribe_audio en rq st = (Inr r, st', evs)"
    and "\<not> word_timestamps rq"
    and "Materialize gen \<in> set evs"
  shows "list_all2 (\<lambda>d sg. (sd_words d \<noteq> None) = has_words (s_words sg))
           (r_segments r) (yields gen) \<and>
         (\<forall>m p l b v w. Transcribe m p l b v w \<in> set evs \<longrightarrow> \<not> w)"
proof -
  from transcribe_audio_success_gen [OF assms(1,3)]
  have "r_segments r = map segment_entry (yields gen)" by simp
  then have "list_all2 (\<lambda>d sg. (sd_words d \<noteq> None) = has_words (s_words sg))
           (r_segments r) (yields gen)"
    by (simp add: list_all2_map1 list_all2_same sd_words_segment_entry)
  moreover have "\<forall>m p l b v w. Transcribe m p l b v w \<in> set evs \<longrightarrow> \<not> w"
    using handler_call_args [OF assms(1)] assms(2) by blast
  ultimately show ?thesis by simp
qed

theorem words_present_iff_engine_words_witness:
  "transcribe_audio demo_env demo_request ready =
     (Inr demo_response, ready, demo_events False) \<and>
   \<not> word_timestamps demo_request \<and>
   Materialize (Generator demo_segments None) \<in> set (demo_events False) \<and>
   list_all2 (\<lambda>d sg. (sd_words d \<noteq> None) = has_words (s_words sg))
     (r_segments demo_response) demo_segments"
proof -
  have h: "\<not> word_timestamps demo_request"
    by (simp add: demo_request_def)
  from words_present_iff_engine_words [OF demo_run_False h demo_materialize]
  have "list_all2 (\<lambda>d sg. (sd_words d \<noteq> None) = has_words (s_words sg))
     (r_segments demo_response) demo_segments"
    by simp
  with demo_run_False h demo_materialize show ?thesis by simp
qed

text \<open>
  Claim C9, as the specification states it, fails in its second half: an empty list is
  false in the test of line 136, so the key is left out. In \<open>demo_env\<close> the second
  segment the engine yields has \<^verbatim>\<open>words = []\<close>, and the response to the request with
  \<^verbatim>\<open>word_timestamps = True\<close> has no key \<^verbatim>\<open>words\<close> in its second segment.
\<close>

theorem empty_word_list_counterexample:
  "word_timestamps (demo_request\<lparr>word_timestamps := True\<rparr>) \<and>
   transcribe_audio demo_env (demo_request\<lparr>word_timestamps := True\<rparr>) ready =
     (Inr demo_response, ready, demo_events True) \<and>
   demo_events True ! 4 = Materialize (Generator demo_segments None) \<and>
   s_words (demo_segments ! 1) = AttrList [] \<and>
   sd_words (r_segments demo_response ! 1) = None"
  by (simp add: demo_run demo_events_def demo_segments_def demo_response_def)

text \<open>
  Claim C9, amended. In every request that returns a response, the response has one
  segment dictionary for each segment the engine yielded, in the same order; where the
  engine's segment carries a non-empty list of words, the dictionary carries those
  words in the same order, each as its \<^verbatim>\<open>word\<close>, \<^verbatim>\<open>start\<close> and \<^verbatim>\<open>end\<close>; and
  where the engine's segment carries an empty list, the dictionary has no key
  \<^verbatim>\<open>words\<close>.
\<close>

theorem word_list_attached_when_nonempty:
  assumes "transcribe_audio en rq st = (Inr r, st', evs)"
    and "Materialize gen \<in> set evs"
  shows "length (r_segments r) = length (yields gen) \<and>
         (\<forall>i<length (yields gen). \<forall>ws. s_words (yields gen ! i) = AttrList ws \<longrightarrow>
            sd_words (r_segments r ! i) =
              (if ws = [] then None else Some (map word_entry ws)))"
  using transcribe_audio_success_gen [OF assms]
  by (simp add: sd_words_segment_entry)

theorem word_list_attached_when_nonempty_witness:
  "transcribe_audio demo_env (demo_request\<lparr>word_timestamps := True\<rparr>) ready =
     (Inr demo_response, ready, demo_events True) \<and>
   Materialize (Generator demo_segments None) \<in> set (demo_events True) \<and>
   (0::nat) < length demo_segments \<and>
   s_words (demo_segments ! 0) = AttrList [\<lparr>w_word = ustr '' hello'', w_start = 0, w_end = 1\<rparr>] \<and>
   sd_words (r_segments demo_response ! 0) =
     Some [\<lparr>wd_word = ustr '' hello'', wd_start = 0, wd_end = 1\<rparr>]"
proof -
  have h1: "(0::nat) < length demo_segments"
    by (simp add: demo_segments_def)
  have h2: "s_words (demo_segments ! 0) =
      AttrList [\<lparr>w_word = ustr '' hello'', w_start = 0, w_end = 1\<rparr>]"
    by (simp add: demo_segments_def)
  from word_list_attached_when_nonempty [OF demo_run [of True] demo_materialize [of True]] h1 h2
  have "sd_words (r_segments demo_response ! 0) =
      Some [\<lparr>wd_word = ustr '' hello'', wd_start = 0, wd_end = 1\<rparr>]"
    by (simp add: word_entry_def)
  with demo_run [of True] demo_materialize [of True] h1 h2 show ?thesis by simp
qed

subsection \<open>The temporary file\<close>

text \<open>
  Claim C4, as the specification states it, fails in its last part: \<^verbatim>\<open>os.unlink\<close> is
  called in the \<^verbatim>\<open>finally\<close> clause outside any \<^verbatim>\<open>try\<close>, so an exception it raises
  leaves the handler in place of the outcome that was pending. In \<open>unlink_fails_env\<close>
  the engine raises \<^verbatim>\<open>decode error\<close>, which the \<^verbatim>\<open>except\<close> clause turns into
  \<^verbatim>\<open>HTTPException(500, "decode error")\<close>; the file exists, its removal raises, and the
  request ends with the removal's exception.
\<close>

theorem cleanup_masks_error_counterexample:
  "except_clause (fst (transcribe_try unlink_fails_env demo_request ready ''/tmp/tmpk3.mp3'')) =
     Inl (HTTPException 500 ''decode error'') \<and>
   path_exists unlink_fails_env ''/tmp/tmpk3.mp3'' \<and>
   unlink unlink_fails_env ''/tmp/tmpk3.mp3'' = Some (Exception ''Permission denied'') \<and>
   fst (transcribe_audio unlink_fails_env demo_request ready) =
     Inl (Uncaught (Exception ''Permission denied''))"
proof -
  have "path_exists unlink_fails_env ''/tmp/tmpk3.mp3''"
    and "unlink unlink_fails_env ''/tmp/tmpk3.mp3'' = Some (Exception ''Permission denied'')"
    by (simp_all add: unlink_fails_env_def decode_fails_env_def demo_env_def)
  then show ?thesis by (simp add: unlink_fails_run unlink_fails_try)
qed

text \<open>
  Claim C4, amended. For every request that reaches line 110, with the model loaded or
  the default load returning success, and for which \<^verbatim>\<open>NamedTemporaryFile\<close> returns a
  file:
  the run creates exactly one temporary file; whatever the \<^verbatim>\<open>try\<close> block does,
  return or raise, the run calls \<^verbatim>\<open>os.unlink\<close> on that file exactly once if
  \<^verbatim>\<open>os.path.exists\<close> finds it and not at all otherwise. If the file is not found or
  its removal returns, the request ends as the \<^verbatim>\<open>try\<close> block and the \<^verbatim>\<open>except\<close>
  clause left it: with the response, or with \<^verbatim>\<open>HTTPException(500, str(e))\<close> for the
  exception \<^verbatim>\<open>e\<close> that was raised (with \<^verbatim>\<open>e\<close> itself when it is not an instance of
  \<^verbatim>\<open>Exception\<close>). If the removal raises, the request ends with the removal's
  exception.
\<close>

theorem temp_file_cleanup:
  assumes "loaded (model_info st) \<or>
      returns_success (fst (load_model en ''large-v3'' ''cuda'' st))"
    and "NamedTemporaryFile en (splitext_ext en (audio_filename rq)) = Inr tmp"
    and "transcribe_audio en rq st = (out, st', evs)"
  shows "filter is_create evs = [CreateTemp (splitext_ext en (audio_filename rq))] \<and>
         filter is_unlink evs = (if path_exists en tmp then [Unlink tmp] else []) \<and>
         out = (if path_exists en tmp
                then (case unlink en tmp of
                        None \<Rightarrow> except_clause (fst (transcribe_try en rq st' tmp))
                      | Some e \<Rightarrow> Inl (Uncaught e))
                else except_clause (fst (transcribe_try en rq st' tmp)))"
proof -
  from transcribe_audio_cases [OF assms(3)] assms(1) obtain ev_load evs' where
    e: "evs = ev_load @ evs'" and c: "list_all is_construct ev_load" and
    s: "transcribe_staged en rq st' = (out, evs')"
    by (auto split: if_splits sum.splits)
  from c have "filter is_create ev_load = []" "filter is_unlink ev_load = []"
    by (auto simp: list_all_iff filter_empty_conv dest: construct_only)
  with transcribe_staged_effects [OF assms(2) s] e show ?thesis by simp
qed

theorem temp_file_cleanup_witness:
  "(loaded (model_info ready) \<or>
      returns_success (fst (load_model decode_fails_env ''large-v3'' ''cuda'' ready))) \<and>
   NamedTemporaryFile decode_fails_env
     (splitext_ext decode_fails_env (audio_filename demo_request)) = Inr ''/tmp/tmpk3.mp3'' \<and>
   transcribe_audio decode_fails_env demo_request ready =
     (Inl (HTTPException 500 ''decode error''), ready, decode_fails_events) \<and>
   filter is_create decode_fails_events = [CreateTemp ''.mp3''] \<and>
   filter is_unlink decode_fails_events = [Unlink ''/tmp/tmpk3.mp3''] \<and>
   except_clause (fst (transcribe_try decode_fails_env demo_request ready ''/tmp/tmpk3.mp3'')) =
     Inl (HTTPException 500 ''decode error'')"
proof -
  have h1: "loaded (model_info ready) \<or>
      returns_success (fst (load_model decode_fails_env ''large-v3'' ''cuda'' ready))"
    by (simp add: ready_def)
  have h2: "NamedTemporaryFile decode_fails_env
     (splitext_ext decode_fails_env (audio_filename demo_request)) = Inr ''/tmp/tmpk3.mp3''"
    by (simp add: decode_fails_env_def demo_env_def demo_request_def)
  have h3: "path_exists decode_fails_env ''/tmp/tmpk3.mp3''"
    "unlink decode_fails_env ''/tmp/tmpk3.mp3'' = None"
    "splitext_ext decode_fails_env (audio_filename demo_request) = ''.mp3''"
    by (simp_all add: decode_fails_env_def demo_env_def demo_request_def)
  from temp_file_cleanup [OF h1 h2 decode_fails_run] h3
  have "filter is_create decode_fails_events = [CreateTemp ''.mp3''] \<and>
    filter is_unlink decode_fails_events = [Unlink ''/tmp/tmpk3.mp3''] \<and>
    except_clause (fst (transcribe_try decode_fails_env demo_request ready ''/tmp/tmpk3.mp3'')) =
      Inl (HTTPException 500 ''decode error'')"
    by simp
  with h1 h2 decode_fails_run show ?thesis by simp
qed

end
